theory Spec2Isabelle
  imports Main
begin

section \<open>Values of the host language\<close>

text \<open>
  A TypeScript value of type \<open>T | null | undefined\<close>. The type parameter \<open>T\<close> of
  \<open>Option<T>\<close> is unconstrained, so at run time the private field, the argument of
  \<open>Option.Some\<close> and the result of a mapper may each be \<open>undefined\<close>, \<open>null\<close> or a
  defined value; \<open>'a\<close> is the type of the defined values.
\<close>

datatype 'a nullable = JS_undefined | JS_null | Val 'a

text \<open>
  Primitive values for the concrete scenarios (\<open>0\<close>, \<open>""\<close>, \<open>false\<close>, \<open>42\<close>). Only
  integral numbers occur in them, so a number is an \<open>int\<close> here.
\<close>

datatype prim = JBool bool | JNum int | JStr string

section \<open>Effects of caller-supplied functions\<close>

text \<open>
  The methods of \<open>Option\<close> call functions supplied by the caller, which may change
  state and may throw. A computation takes the state of the surrounding program and
  returns the state it leaves together with either the value it returns (\<open>Inr\<close>) or the
  error it throws (\<open>Inl\<close>). The state a computation has reached when it throws is kept.
\<close>

datatype error = Error string | TypeError string

type_synonym ('s, 'r) eff = "'s \<Rightarrow> (error + 'r) \<times> 's"

definition ret :: "'r \<Rightarrow> ('s, 'r) eff" where
  "ret x = (\<lambda>s. (Inr x, s))"

definition throw :: "error \<Rightarrow> ('s, 'r) eff" where
  "throw e = (\<lambda>s. (Inl e, s))"

text \<open>Evaluate \<open>m\<close>, then \<open>k\<close> on its value; an error of \<open>m\<close> skips \<open>k\<close>.\<close>

definition seq :: "('s, 'a) eff \<Rightarrow> ('a \<Rightarrow> ('s, 'b) eff) \<Rightarrow> ('s, 'b) eff" where
  "seq m k = (\<lambda>s. case m s of (Inl e, s') \<Rightarrow> (Inl e, s') | (Inr x, s') \<Rightarrow> k x s')"

text \<open>Whether a computation throws when started in state \<open>s\<close>.\<close>

definition throws :: "('s, 'r) eff \<Rightarrow> 's \<Rightarrow> bool" where
  "throws m s = (case fst (m s) of Inl _ \<Rightarrow> True | Inr _ \<Rightarrow> False)"

section \<open>The helpers imported from @oxi/core\<close>

text \<open>
  Modelled from the spec: \<open>isDefined\<close> is imported from \<open>@oxi/core\<close> and is not part
  of \<open>mod.ts\<close>. The spec calls it the "is this value defined" predicate and names the
  host's two "not defined" sentinels, \<open>null\<close> and \<open>undefined\<close>, as the only values
  that are not defined; a falsy value such as \<open>0\<close>, \<open>""\<close> or \<open>false\<close> is defined.
\<close>

fun isDefined :: "'a nullable \<Rightarrow> bool" where
  "isDefined JS_undefined = False"
| "isDefined JS_null = False"
| "isDefined (Val x) = True"

text \<open>
  Modelled from the spec: \<open>raise\<close> is imported from \<open>@oxi/core\<close> and is not part of
  \<open>mod.ts\<close>. The spec calls it the "raise a labeled failure" primitive: it never
  returns and throws an error that carries the given message as its description.
\<close>

definition raise :: "string \<Rightarrow> ('s, 'r) eff" where
  "raise message = throw (Error message)"

section \<open>The module constants\<close>

definition TRUE :: "'x \<Rightarrow> ('s, bool) eff" where
  "TRUE _ = ret True"

definition FALSE :: "'x \<Rightarrow> ('s, bool) eff" where
  "FALSE _ = ret False"

definition IDENTITY :: "'t \<Rightarrow> ('s, 't) eff" where
  "IDENTITY v = ret v"

definition NOOP :: "'x \<Rightarrow> ('s, unit) eff" where
  "NOOP _ = ret ()"

section \<open>The class Option\<close>

text \<open>
  An instance has one private field, \<open>#value?: T\<close>, set by the private constructor.
  Object identity is not part of the model: no method of the class compares
  references, and two instances are equal here when their fields are. The static
  \<open>isOption\<close> tests the class of an arbitrary value and never reads the field; in
  this typed model every \<open>'a Option\<close> is an instance, so it has no counterpart.
\<close>

datatype 'a Option = New_Option (priv_value: "'a nullable")

definition Option_Some :: "'a nullable \<Rightarrow> 'a Option" where
  "Option_Some v = New_Option v"

text \<open>\<open>new Option()\<close>: the constructor's parameter is omitted, the field is \<open>undefined\<close>.\<close>

definition Option_None :: "'a Option" where
  "Option_None = New_Option JS_undefined"

definition Option_from :: "'a nullable \<Rightarrow> 'a Option" where
  "Option_from v = (if isDefined v then Option_Some v else Option_None)"

definition match :: "'a Option \<Rightarrow> ('a nullable \<Rightarrow> ('s, 'u) eff) \<Rightarrow> (unit \<Rightarrow> ('s, 'u) eff) \<Rightarrow> ('s, 'u) eff" where
  "match this onSome onNone =
     (let v = priv_value this in
      if isDefined v then onSome v else onNone ())"

definition isSome :: "'a Option \<Rightarrow> ('s, bool) eff" where
  "isSome this = match this TRUE FALSE"

definition isSomeAnd :: "'a Option \<Rightarrow> ('a nullable \<Rightarrow> ('s, bool) eff) \<Rightarrow> ('s, bool) eff" where
  "isSomeAnd this predicate = match this predicate FALSE"

definition isNone :: "'a Option \<Rightarrow> ('s, bool) eff" where
  "isNone this = match this FALSE TRUE"

definition expect :: "'a Option \<Rightarrow> string \<Rightarrow> ('s, 'a nullable) eff" where
  "expect this message = match this IDENTITY (\<lambda>_. raise message)"

definition unwrap :: "'a Option \<Rightarrow> ('s, 'a nullable) eff" where
  "unwrap this = expect this ''called `Option.unwrap()` on a `None` value''"

definition unwrapOr :: "'a Option \<Rightarrow> 'a nullable \<Rightarrow> ('s, 'a nullable) eff" where
  "unwrapOr this defaultValue = match this IDENTITY (\<lambda>_. ret defaultValue)"

definition unwrapOrElse :: "'a Option \<Rightarrow> (unit \<Rightarrow> ('s, 'a nullable) eff) \<Rightarrow> ('s, 'a nullable) eff" where
  "unwrapOrElse this onNone = match this IDENTITY onNone"

definition map_opt :: "'a Option \<Rightarrow> ('a nullable \<Rightarrow> ('s, 'b nullable) eff) \<Rightarrow> ('s, 'b Option) eff" where
  "map_opt this mapper =
     match this
       (\<lambda>v. seq (mapper v) (\<lambda>r. ret (Option_Some r)))
       (\<lambda>_. ret Option_None)"

definition mapOr :: "'a Option \<Rightarrow> 'u \<Rightarrow> ('a nullable \<Rightarrow> ('s, 'u) eff) \<Rightarrow> ('s, 'u) eff" where
  "mapOr this defaultValue mapper = match this mapper (\<lambda>_. ret defaultValue)"

definition mapOrElse :: "'a Option \<Rightarrow> (unit \<Rightarrow> ('s, 'u) eff) \<Rightarrow> ('a nullable \<Rightarrow> ('s, 'u) eff) \<Rightarrow> ('s, 'u) eff" where
  "mapOrElse this onNone mapper = match this mapper onNone"

definition inspect :: "'a Option \<Rightarrow> ('a nullable \<Rightarrow> ('s, unit) eff) \<Rightarrow> ('s, 'a Option) eff" where
  "inspect this onSome = seq (match this onSome NOOP) (\<lambda>_. ret this)"

definition and_opt :: "'a Option \<Rightarrow> 'b Option \<Rightarrow> ('s, 'b Option) eff" where
  "and_opt this other = match this (\<lambda>_. ret other) (\<lambda>_. ret Option_None)"

definition andThen :: "'a Option \<Rightarrow> ('a nullable \<Rightarrow> ('s, 'b Option) eff) \<Rightarrow> ('s, 'b Option) eff" where
  "andThen this mapper = match this mapper (\<lambda>_. ret Option_None)"

definition filter_opt :: "'a Option \<Rightarrow> ('a nullable \<Rightarrow> ('s, bool) eff) \<Rightarrow> ('s, 'a Option) eff" where
  "filter_opt this predicate =
     seq (isSomeAnd this predicate)
       (\<lambda>c. if c then ret this else ret Option_None)"

definition or_opt :: "'a Option \<Rightarrow> 'a Option \<Rightarrow> ('s, 'a Option) eff" where
  "or_opt this other = match this (\<lambda>v. ret (Option_Some v)) (\<lambda>_. ret other)"

definition orElse :: "'a Option \<Rightarrow> (unit \<Rightarrow> ('s, 'a Option) eff) \<Rightarrow> ('s, 'a Option) eff" where
  "orElse this onNone = match this (\<lambda>v. ret (Option_Some v)) onNone"

text \<open>\<open>&&\<close> evaluates its right operand only when the left one is true.\<close>

definition xor_opt :: "'a Option \<Rightarrow> 'a Option \<Rightarrow> ('s, 'a Option) eff" where
  "xor_opt this other =
     seq (seq (isSome this) (\<lambda>a. if a then isNone other else ret False))
       (\<lambda>c. if c then ret this
            else seq (seq (isNone this) (\<lambda>a. if a then isSome other else ret False))
              (\<lambda>d. if d then ret other else ret Option_None))"

definition toJSON :: "'a Option \<Rightarrow> ('s, 'a nullable) eff" where
  "toJSON this = match this IDENTITY (\<lambda>_. ret JS_undefined)"

text \<open>
  The template literal converts the value to a string by the host's conversion. That
  conversion is not part of the class: it runs the value's own \<open>toString\<close> when it has
  one, which may change state and may throw, and it throws a \<open>TypeError\<close> for a value
  that has no string form (a \<open>Symbol\<close>, an object without a prototype). It is the
  parameter \<open>str\<close>, a computation as the callbacks are.
\<close>

definition toString :: "('a nullable \<Rightarrow> ('s, string) eff) \<Rightarrow> 'a Option \<Rightarrow> ('s, string) eff" where
  "toString str this =
     match this
       (\<lambda>v. seq (str v) (\<lambda>t. ret (''Some('' @ t @ '')'')))
       (\<lambda>_. ret ''None'')"

section \<open>Callbacks that record their invocation\<close>

text \<open>
  To count invocations, a callback is wrapped so that each call appends an entry made
  from its argument to a log kept beside the callback's own state.
\<close>

datatype 'a call = Called_onSome "'a nullable" | Called_onNone

definition logged :: "('x \<Rightarrow> 'c) \<Rightarrow> ('x \<Rightarrow> ('s, 'u) eff) \<Rightarrow> 'x \<Rightarrow> ('c list \<times> 's, 'u) eff" where
  "logged entry f x =
     (\<lambda>(log, s). case f x s of (r, s') \<Rightarrow> (r, (log @ [entry x], s')))"

text \<open>
  Presence as the public interface reports it: \<open>isSome()\<close> returns \<open>true\<close>.
\<close>

definition present :: "'a Option \<Rightarrow> bool" where
  "present this = (fst (isSome this ()) = Inr True)"

section \<open>Callbacks of the examples\<close>

text \<open>\<open>(v) => { count++; return v; }\<close> on a counter: a callback with a side effect.\<close>

definition counting :: "'t \<Rightarrow> (nat, 't) eff" where
  "counting v = (\<lambda>n. (Inr v, Suc n))"

text \<open>\<open>() => { count++; return null; }\<close>\<close>

definition counting_null :: "unit \<Rightarrow> (nat, 'a nullable) eff" where
  "counting_null _ = (\<lambda>n. (Inr JS_null, Suc n))"

text \<open>\<open>() => 1\<close>\<close>

definition const_one :: "prim nullable \<Rightarrow> ('s, prim nullable) eff" where
  "const_one _ = ret (Val (JNum 1))"

text \<open>\<open>() => Option.Some(1)\<close>\<close>

definition some_of_one :: "prim nullable \<Rightarrow> ('s, prim Option) eff" where
  "some_of_one _ = ret (Option_Some (Val (JNum 1)))"

text \<open>\<open>(v) => v === 10\<close>, the predicate of the tests.\<close>

definition is_ten :: "prim nullable \<Rightarrow> ('s, bool) eff" where
  "is_ten v = ret (v = Val (JNum 10))"



section \<open>Basic facts\<close>

lemma seq_ret [simp]: "seq (ret x) k = k x"
  by (simp add: seq_def ret_def)

lemma ret_apply: "ret x s = (Inr x, s)"
  by (simp add: ret_def)

lemma seq_Pair [simp]: "seq (Pair (Inr x)) k = k x"
  by (simp add: seq_def)

lemma priv_value_Some [simp]: "priv_value (Option_Some v) = v"
  by (simp add: Option_Some_def)

lemma priv_value_None [simp]: "priv_value Option_None = JS_undefined"
  by (simp add: Option_None_def)

lemma seq_apply:
  "seq m k s = (case m s of (Inl e, s') \<Rightarrow> (Inl e, s') | (Inr x, s') \<Rightarrow> k x s')"
  by (simp add: seq_def)

lemma match_New_Option:
  "match (New_Option v) onSome onNone = (if isDefined v then onSome v else onNone ())"
  by (simp add: match_def)

lemma match_defined:
  "isDefined (priv_value this) \<Longrightarrow> match this onSome onNone = onSome (priv_value this)"
  by (simp add: match_def)

lemma match_not_defined:
  "\<not> isDefined (priv_value this) \<Longrightarrow> match this onSome onNone = onNone ()"
  by (simp add: match_def)

lemma match_None [simp]: "match Option_None onSome onNone = onNone ()"
  by (simp add: match_def Option_None_def)

lemma isSome_apply: "isSome this s = (Inr (isDefined (priv_value this)), s)"
  by (simp add: isSome_def match_def Let_def TRUE_def FALSE_def ret_def)

lemma isNone_apply: "isNone this s = (Inr (\<not> isDefined (priv_value this)), s)"
  by (simp add: isNone_def match_def Let_def TRUE_def FALSE_def ret_def)

lemma isSome_ret: "isSome this = ret (isDefined (priv_value this))"
  by (simp add: isSome_def match_def Let_def TRUE_def FALSE_def)

lemma isNone_ret: "isNone this = ret (\<not> isDefined (priv_value this))"
  by (simp add: isNone_def match_def Let_def TRUE_def FALSE_def)

lemma isDefined_iff: "isDefined v \<longleftrightarrow> v \<noteq> JS_null \<and> v \<noteq> JS_undefined"
  by (cases v) simp_all

lemma present_iff: "present this \<longleftrightarrow> isDefined (priv_value this)"
  by (simp add: present_def isSome_apply)

lemma expect_apply:
  "expect this message s =
     (if isDefined (priv_value this) then (Inr (priv_value this), s)
      else (Inl (Error message), s))"
  by (simp add: expect_def match_def Let_def IDENTITY_def raise_def ret_def throw_def)

lemma logged_apply:
  "logged entry f x (log, s) = (fst (f x s), (log @ [entry x], snd (f x s)))"
  by (simp add: logged_def split: prod.splits)

section \<open>Construction\<close>

text \<open>
  C1, as the code has it. For every value \<open>v\<close> other than \<open>null\<close> and \<open>undefined\<close>,
  the falsy values \<open>0\<close>, \<open>""\<close> and \<open>false\<close> among them, \<open>Some(v)\<close> wraps exactly
  \<open>v\<close>: \<open>isSome()\<close> returns \<open>true\<close>, \<open>unwrap()\<close> returns \<open>v\<close>, \<open>match\<close> hands \<open>v\<close> to
  \<open>onSome\<close>, and none of them changes the state.
\<close>

theorem Some_wraps_defined_value:
  "isDefined v \<Longrightarrow>
     isSome (Option_Some v) s = (Inr True, s)
     \<and> unwrap (Option_Some v) s = (Inr v, s)
     \<and> match (Option_Some v) onSome onNone = onSome v"
  by (simp add: isSome_apply unwrap_def expect_apply match_def Option_Some_def)

theorem Some_wraps_defined_value_witness:
  "isSome (Option_Some (Val (JNum 0))) () = (Inr True, ())
   \<and> unwrap (Option_Some (Val (JNum 0))) () = (Inr (Val (JNum 0)), ())
   \<and> unwrap (Option_Some (Val (JStr []))) () = (Inr (Val (JStr [])), ())
   \<and> isSome (Option_Some (Val (JBool False))) () = (Inr True, ())
   \<and> match (Option_Some (Val (JBool False))) counting counting_null 0
       = (Inr (Val (JBool False)), 1)"
  using Some_wraps_defined_value [of "Val (JNum 0)" "()" counting counting_null]
    Some_wraps_defined_value [of "Val (JStr [])" "()" counting counting_null]
    Some_wraps_defined_value [of "Val (JBool False)" "()" counting counting_null]
  by (simp add: counting_def)

text \<open>
  C1 as the spec states it fails at \<open>null\<close>: \<open>Some(null).isSome()\<close> returns \<open>false\<close>
  and \<open>Some(null).unwrap()\<close> throws instead of returning \<open>null\<close>.
\<close>

theorem Some_null_counterexample:
  "isSome (Option_Some (JS_null :: prim nullable)) () = (Inr False, ())
   \<and> unwrap (Option_Some (JS_null :: prim nullable)) ()
       = (Inl (Error ''called `Option.unwrap()` on a `None` value''), ())"
  by (simp add: isSome_apply unwrap_def expect_apply Option_Some_def)

section \<open>The eliminator\<close>

text \<open>
  C2. \<open>match\<close> runs exactly one of its two functions, chosen by whether the stored
  field is defined: \<open>onSome\<close> on the stored value, or \<open>onNone\<close> with no argument. What
  \<open>match\<close> returns or throws and the state it leaves are those of that one call. With
  both functions recording their calls, the log grows by exactly the one entry of the
  branch taken, and the other function's entry never appears.
\<close>

theorem match_invokes_exactly_one:
  "match this onSome onNone
     = (if present this then onSome (priv_value this) else onNone ())
   \<and> match this (logged Called_onSome onSome) (logged (\<lambda>_. Called_onNone) onNone) (log, s)
     = (if present this
        then (fst (onSome (priv_value this) s),
              (log @ [Called_onSome (priv_value this)], snd (onSome (priv_value this) s)))
        else (fst (onNone () s), (log @ [Called_onNone], snd (onNone () s))))"
  by (simp add: match_def Let_def present_iff logged_apply)

theorem match_invokes_exactly_one_witness:
  "match (Option_Some (Val (JNum 5))) (logged Called_onSome counting)
       (logged (\<lambda>_. Called_onNone) counting_null) ([], 0)
     = (Inr (Val (JNum 5)), ([Called_onSome (Val (JNum 5))], 1))
   \<and> match (Option_None :: prim Option) (logged Called_onSome counting)
       (logged (\<lambda>_. Called_onNone) counting_null) ([], 0)
     = (Inr JS_null, ([Called_onNone], 1))"
  using match_invokes_exactly_one [of "Option_Some (Val (JNum 5))" counting counting_null "[]" 0]
    match_invokes_exactly_one [of "Option_None :: prim Option" counting counting_null "[]" 0]
  by (simp add: present_iff Option_Some_def Option_None_def counting_def counting_null_def)

section \<open>The bridge constructor\<close>

text \<open>
  C3. \<open>Option.from\<close> returns \<open>None\<close> exactly when its input is \<open>null\<close> or
  \<open>undefined\<close>, and \<open>Some(value)\<close>, which is present, for every other input, the falsy
  values \<open>0\<close>, \<open>""\<close> and \<open>false\<close> among them.
\<close>

theorem from_absent_iff_sentinel:
  "(Option_from v = Option_None \<longleftrightarrow> v = JS_null \<or> v = JS_undefined)
   \<and> Option_from v = (if v = JS_null \<or> v = JS_undefined then Option_None else Option_Some v)
   \<and> (present (Option_from v) \<longleftrightarrow> v \<noteq> JS_null \<and> v \<noteq> JS_undefined)
   \<and> Option_from (Val (JNum 0)) = Option_Some (Val (JNum 0))
   \<and> Option_from (Val (JStr [])) = Option_Some (Val (JStr []))
   \<and> Option_from (Val (JBool False)) = Option_Some (Val (JBool False))"
  by (cases v) (simp_all add: Option_from_def Option_None_def Option_Some_def present_iff)

theorem from_absent_iff_sentinel_witness:
  "Option_from (JS_null :: prim nullable) = Option_None
   \<and> Option_from (JS_undefined :: prim nullable) = Option_None
   \<and> Option_from (Val (JNum 0)) \<noteq> Option_None
   \<and> present (Option_from (Val (JNum 0)))"
  using from_absent_iff_sentinel [of "JS_null :: prim nullable"]
    from_absent_iff_sentinel [of "JS_undefined :: prim nullable"]
    from_absent_iff_sentinel [of "Val (JNum 0)"]
  by blast

section \<open>Transformation and chaining\<close>

lemma map_opt_defined:
  "isDefined v \<Longrightarrow> map_opt (Option_Some v) f = seq (f v) (\<lambda>r. ret (Option_Some r))"
  by (simp add: map_opt_def match_def Option_Some_def)

lemma map_opt_None: "map_opt Option_None f = ret Option_None"
  by (simp add: map_opt_def)

text \<open>
  C4, as the code has it. For every value \<open>v\<close> other than \<open>null\<close> and \<open>undefined\<close>
  and every function \<open>f\<close>, \<open>Some(v).map(f)\<close> calls \<open>f\<close> on \<open>v\<close> exactly once and,
  when that call returns \<open>r\<close>, returns \<open>Some(r)\<close>; \<open>None.map(f)\<close> returns \<open>None\<close>
  and never calls \<open>f\<close>: the state and the log of calls are left as they were.
\<close>

theorem map_functor_law_defined:
  "(isDefined v \<longrightarrow> map_opt (Option_Some v) f = seq (f v) (\<lambda>r. ret (Option_Some r)))
   \<and> (isDefined v \<longrightarrow> f v s = (Inr r, s') \<longrightarrow>
        map_opt (Option_Some v) f s = (Inr (Option_Some r), s')
        \<and> map_opt (Option_Some v) (logged Called_onSome f) (log, s)
            = (Inr (Option_Some r), (log @ [Called_onSome v], s')))
   \<and> map_opt Option_None f s = (Inr Option_None, s)
   \<and> map_opt Option_None (logged Called_onSome f) (log, s) = (Inr Option_None, (log, s))"
  by (simp add: map_opt_defined map_opt_None seq_apply logged_apply ret_apply)

theorem map_functor_law_defined_witness:
  "map_opt (Option_Some (Val (JNum 42))) const_one () = (Inr (Option_Some (Val (JNum 1))), ())
   \<and> map_opt (Option_Some (Val (JNum 42))) (logged Called_onSome const_one) ([], ())
       = (Inr (Option_Some (Val (JNum 1))), ([Called_onSome (Val (JNum 42))], ()))
   \<and> map_opt Option_None (logged Called_onSome const_one) ([], ())
       = (Inr Option_None, ([], ()))"
  using map_functor_law_defined
    [of "Val (JNum 42)" const_one "()" "Val (JNum 1)" "()" "[]"]
  by (simp add: const_one_def ret_apply)

text \<open>
  C4 as the spec states it fails at \<open>v = null\<close>: \<open>Some(null).map(() => 1)\<close> is
  \<open>None\<close>, while \<open>Some((() => 1)(null))\<close> is \<open>Some(1)\<close>.
\<close>

theorem map_null_counterexample:
  "map_opt (Option_Some JS_null) const_one () = (Inr Option_None, ())
   \<and> const_one JS_null () = (Inr (Val (JNum 1)), ())
   \<and> (Option_None :: prim Option) \<noteq> Option_Some (Val (JNum 1))
   \<and> \<not> present (Option_None :: prim Option)
   \<and> present (Option_Some (Val (JNum 1)))"
  by (simp add: map_opt_def match_def Option_Some_def Option_None_def const_one_def
      ret_def present_iff)

text \<open>
  C5, as the code has it. For every value \<open>v\<close> other than \<open>null\<close> and \<open>undefined\<close>
  and every function \<open>f\<close> that returns an \<open>Option\<close>, \<open>Some(v).andThen(f)\<close> is the
  call \<open>f(v)\<close>, not wrapped again; \<open>None.andThen(f)\<close> returns \<open>None\<close> and leaves the
  state as it was.
\<close>

theorem andThen_left_identity_defined:
  "(isDefined v \<longrightarrow> andThen (Option_Some v) f = f v)
   \<and> andThen Option_None f s = (Inr Option_None, s)"
  by (simp add: andThen_def match_def Option_Some_def Option_None_def ret_def)

theorem andThen_left_identity_defined_witness:
  "andThen (Option_Some (Val (JNum 42))) some_of_one ()
     = (Inr (Option_Some (Val (JNum 1))), ())
   \<and> andThen (Option_None :: prim Option) some_of_one () = (Inr Option_None, ())"
  using andThen_left_identity_defined [of "Val (JNum 42)" some_of_one "()"]
    andThen_left_identity_defined [of "Val (JNum 42)" some_of_one "()", THEN conjunct2]
  by (simp add: some_of_one_def ret_def)

text \<open>
  C5 as the spec states it fails at \<open>v = null\<close>: \<open>Some(null).andThen(() => Some(1))\<close>
  is \<open>None\<close>, while \<open>(() => Some(1))(null)\<close> is \<open>Some(1)\<close>.
\<close>

theorem andThen_null_counterexample:
  "andThen (Option_Some JS_null) some_of_one () = (Inr Option_None, ())
   \<and> some_of_one JS_null () = (Inr (Option_Some (Val (JNum 1))), ())
   \<and> (Option_None :: prim Option) \<noteq> Option_Some (Val (JNum 1))"
  by (simp add: andThen_def match_def Option_Some_def Option_None_def some_of_one_def ret_def)

section \<open>Interop\<close>

text \<open>
  C6. Through \<open>toJSON\<close> and back through \<open>Option.from\<close>: for every value \<open>v\<close> that is
  neither \<open>null\<close> nor \<open>undefined\<close>, \<open>Option.from(Some(v).toJSON())\<close> is \<open>Some(v)\<close>,
  and \<open>Option.from(None.toJSON())\<close> is \<open>None\<close>.
\<close>

theorem from_toJSON_roundtrip:
  "(isDefined v \<longrightarrow>
      seq (toJSON (Option_Some v)) (\<lambda>j. ret (Option_from j)) s = (Inr (Option_Some v), s))
   \<and> seq (toJSON (Option_None :: 'a Option)) (\<lambda>j. ret (Option_from j)) s
       = (Inr Option_None, s)
   \<and> toJSON (Option_None :: 'a Option) s = (Inr JS_undefined, s)"
  for v :: "'a nullable"
  by (simp add: toJSON_def match_def Option_Some_def Option_None_def IDENTITY_def
      Option_from_def ret_apply)

theorem from_toJSON_roundtrip_witness:
  "seq (toJSON (Option_Some (Val (JNum 42)))) (\<lambda>j. ret (Option_from j)) ()
     = (Inr (Option_Some (Val (JNum 42))), ())
   \<and> seq (toJSON (Option_None :: prim Option)) (\<lambda>j. ret (Option_from j)) ()
     = (Inr Option_None, ())"
  using from_toJSON_roundtrip [of "Val (JNum 42)" "()"]
  by simp

section \<open>Exclusive or and filter\<close>

lemma xor_opt_apply:
  "xor_opt a b s =
     (Inr (if isDefined (priv_value a) \<and> \<not> isDefined (priv_value b) then a
           else if \<not> isDefined (priv_value a) \<and> isDefined (priv_value b) then b
           else Option_None), s)"
  by (simp add: xor_opt_def isSome_ret isNone_ret ret_apply)

lemma not_present_None [simp]: "\<not> present Option_None"
  by (simp add: present_iff Option_None_def)

lemma isSomeAnd_apply:
  "isSomeAnd a p s = (if isDefined (priv_value a) then p (priv_value a) s else (Inr False, s))"
  by (simp add: isSomeAnd_def match_def Let_def FALSE_def ret_apply)

lemma filter_opt_apply:
  "filter_opt a p s =
     (if isDefined (priv_value a)
      then (case p (priv_value a) s of
              (Inl e, s') \<Rightarrow> (Inl e, s')
            | (Inr c, s') \<Rightarrow> (Inr (if c then a else Option_None), s'))
      else (Inr Option_None, s))"
  by (simp add: filter_opt_def seq_apply isSomeAnd_apply ret_apply
      split: prod.splits sum.splits)

text \<open>
  C7. \<open>a.xor(b)\<close> always returns, and leaves the state as it was. Its result is
  present exactly when one of \<open>a\<close>, \<open>b\<close> is present and the other is not, and it is
  then that one, with its value; when both are present or both are absent the result
  is \<open>None\<close>.
\<close>

theorem xor_exactly_one_present:
  "\<exists>r. xor_opt a b s = (Inr r, s)
     \<and> (present r \<longleftrightarrow> present a \<noteq> present b)
     \<and> (present a \<and> \<not> present b \<longrightarrow> r = a)
     \<and> (\<not> present a \<and> present b \<longrightarrow> r = b)
     \<and> (present a = present b \<longrightarrow> r = Option_None)"
  by (auto simp add: xor_opt_apply present_iff Option_None_def)

theorem xor_exactly_one_present_witness:
  "xor_opt (Option_Some (Val (JNum 10))) (Option_Some (Val (JNum 20))) ()
     = (Inr Option_None, ())
   \<and> xor_opt (Option_Some (Val (JNum 10))) Option_None ()
     = (Inr (Option_Some (Val (JNum 10))), ())
   \<and> xor_opt Option_None (Option_Some (Val (JNum 20))) ()
     = (Inr (Option_Some (Val (JNum 20))), ())
   \<and> xor_opt (Option_None :: prim Option) Option_None () = (Inr Option_None, ())"
  using xor_exactly_one_present [of "Option_Some (Val (JNum 10))" "Option_Some (Val (JNum 20))" "()"]
    xor_exactly_one_present [of "Option_Some (Val (JNum 10))" "Option_None" "()"]
    xor_exactly_one_present [of "Option_None" "Option_Some (Val (JNum 20))" "()"]
    xor_exactly_one_present [of "Option_None :: prim Option" "Option_None" "()"]
  by (auto simp add: present_iff Option_Some_def Option_None_def)

text \<open>
  C8. \<open>a.filter(p)\<close> returns \<open>a\<close> itself when \<open>a\<close> is present and \<open>p\<close>, called on
  the wrapped value, returns \<open>true\<close>; it returns \<open>None\<close> when \<open>p\<close> returns \<open>false\<close>,
  and when \<open>a\<close> is absent, where \<open>p\<close> is not called. So whenever \<open>filter\<close> returns,
  its result is present exactly when \<open>a\<close> is present and \<open>p\<close> returned \<open>true\<close>.
\<close>

theorem filter_present_iff:
  "(present a \<and> p (priv_value a) s = (Inr True, s') \<longrightarrow> filter_opt a p s = (Inr a, s'))
   \<and> (present a \<and> p (priv_value a) s = (Inr False, s') \<longrightarrow>
        filter_opt a p s = (Inr Option_None, s'))
   \<and> (\<not> present a \<longrightarrow> filter_opt a p s = (Inr Option_None, s))
   \<and> (filter_opt a p s = (Inr r, s') \<longrightarrow>
        (present r \<longleftrightarrow> present a \<and> p (priv_value a) s = (Inr True, s'))
        \<and> (present r \<longrightarrow> r = a)
        \<and> (\<not> present r \<longrightarrow> r = Option_None))"
  by (auto simp add: filter_opt_apply present_iff split: prod.splits sum.splits if_splits)

theorem filter_present_iff_witness:
  "filter_opt (Option_Some (Val (JNum 10))) is_ten () = (Inr (Option_Some (Val (JNum 10))), ())
   \<and> filter_opt (Option_Some (Val (JNum 42))) is_ten () = (Inr Option_None, ())
   \<and> filter_opt (Option_None :: prim Option) is_ten () = (Inr Option_None, ())"
  using filter_present_iff
      [of "Option_Some (Val (JNum 10))" is_ten "()" "()" Option_None, THEN conjunct1]
    filter_present_iff
      [of "Option_Some (Val (JNum 42))" is_ten "()" "()" Option_None,
        THEN conjunct2, THEN conjunct1]
    filter_present_iff
      [of "Option_None :: prim Option" is_ten "()" "()" Option_None,
        THEN conjunct2, THEN conjunct2, THEN conjunct1]
  by (simp add: present_iff is_ten_def ret_apply)

section \<open>Errors\<close>

lemma throws_ret [simp]: "\<not> throws (ret x) s"
  by (simp add: throws_def ret_def)

lemma throws_xor_opt [simp]: "\<not> throws (xor_opt a b) s"
  by (simp add: throws_def xor_opt_apply)

lemma ret_not_Inl [simp]: "ret x s \<noteq> (Inl e, s')"
  by (simp add: ret_def)

lemma seq_ret_Inl [simp]:
  "seq m (\<lambda>x. ret (g x)) s = (Inl e, s') \<longleftrightarrow> m s = (Inl e, s')"
  by (auto simp add: seq_def ret_def split: prod.splits sum.splits)















section \<open>Some of a value that is not defined\<close>

lemma match_Some_not_defined:
  "\<not> isDefined w \<Longrightarrow> match (Option_Some w) onSome onNone = onNone ()"
  by (simp add: match_def)

lemma Option_Some_priv_value [simp]: "Option_Some (priv_value this) = this"
  by (simp add: Option_Some_def)

lemma xor_opt_not_defined_left:
  "\<not> isDefined w \<Longrightarrow> xor_opt (Option_Some w) b = xor_opt Option_None b"
  by (rule ext) (simp add: xor_opt_apply)

lemma xor_opt_not_defined_right:
  "\<not> isDefined w \<Longrightarrow> xor_opt a (Option_Some w) = xor_opt a Option_None"
  by (rule ext) (simp add: xor_opt_apply)

lemma filter_opt_not_defined:
  "\<not> isDefined w \<Longrightarrow> filter_opt (Option_Some w) p = filter_opt Option_None p"
  by (rule ext) (simp add: filter_opt_apply)

text \<open>
  C10. Let \<open>w\<close> be \<open>null\<close> or \<open>undefined\<close>. Presence is decided by whether the stored
  field is defined, so \<open>Some(w)\<close> behaves as \<open>None\<close> does: \<open>match\<close> runs \<open>onNone\<close>
  and only it, \<open>isSome\<close> returns \<open>false\<close>, \<open>unwrap\<close> throws, and \<open>map\<close>, \<open>andThen\<close> and
  \<open>filter\<close> return \<open>None\<close> without calling their function. Every method gives on
  \<open>Some(w)\<close> what it gives on \<open>None\<close>, as the receiver and as the argument of
  \<open>xor\<close>; the methods that hand back the instance itself (\<open>inspect\<close>, and \<open>and\<close> and
  \<open>or\<close> for their argument) hand back an instance that is not present.
\<close>

theorem Some_of_sentinel_is_absent:
  "\<not> isDefined w \<Longrightarrow>
     match (Option_Some w) onSome onNone = onNone ()
     \<and> match (Option_Some w) (logged Called_onSome onSome') (logged (\<lambda>_. Called_onNone) onNone')
           (log, s')
         = (fst (onNone' () s'), (log @ [Called_onNone], snd (onNone' () s')))
     \<and> isSome (Option_Some w) s = (Inr False, s)
     \<and> isNone (Option_Some w) s = (Inr True, s)
     \<and> unwrap (Option_Some w) s
         = (Inl (Error ''called `Option.unwrap()` on a `None` value''), s)
     \<and> map_opt (Option_Some w) mapper s = (Inr Option_None, s)
     \<and> andThen (Option_Some w) chain s = (Inr Option_None, s)
     \<and> filter_opt (Option_Some w) predicate s = (Inr Option_None, s)
     \<and> inspect (Option_Some w) inspector s = (Inr (Option_Some w), s)
     \<and> \<not> present (Option_Some w)
     \<and> match (Option_Some w) onSome onNone = match Option_None onSome onNone
     \<and> isSome (Option_Some w) s = isSome (Option_None :: 'a Option) s
     \<and> isNone (Option_Some w) s = isNone (Option_None :: 'a Option) s
     \<and> isSomeAnd (Option_Some w) predicate = isSomeAnd Option_None predicate
     \<and> expect (Option_Some w) message = expect Option_None message
     \<and> unwrap (Option_Some w) = unwrap Option_None
     \<and> unwrapOr (Option_Some w) defaultValue = unwrapOr Option_None defaultValue
     \<and> unwrapOrElse (Option_Some w) fallback = unwrapOrElse Option_None fallback
     \<and> map_opt (Option_Some w) mapper = map_opt Option_None mapper
     \<and> mapOr (Option_Some w) defaultValue' mapper' = mapOr Option_None defaultValue' mapper'
     \<and> mapOrElse (Option_Some w) fallback' mapper' = mapOrElse Option_None fallback' mapper'
     \<and> and_opt (Option_Some w) other s = and_opt (Option_None :: 'a Option) other s
     \<and> andThen (Option_Some w) chain = andThen Option_None chain
     \<and> filter_opt (Option_Some w) predicate = filter_opt Option_None predicate
     \<and> or_opt (Option_Some w) other' = or_opt Option_None other'
     \<and> orElse (Option_Some w) alternative = orElse Option_None alternative
     \<and> xor_opt (Option_Some w) other' = xor_opt Option_None other'
     \<and> xor_opt other' (Option_Some w) = xor_opt other' Option_None
     \<and> toJSON (Option_Some w) = toJSON Option_None
     \<and> toString str (Option_Some w) = toString str Option_None
     \<and> and_opt other' (Option_Some w) s
         = (Inr (if present other' then Option_Some w else Option_None), s)
     \<and> or_opt other' (Option_Some w) s
         = (Inr (if present other' then other' else Option_Some w), s)"
  for w :: "'a nullable"
  by (simp add: match_Some_not_defined xor_opt_not_defined_left xor_opt_not_defined_right
      filter_opt_not_defined filter_opt_apply present_iff logged_apply
      isSome_apply isNone_apply unwrap_def expect_def isSomeAnd_def unwrapOr_def
      unwrapOrElse_def map_opt_def mapOr_def mapOrElse_def and_opt_def andThen_def
      or_opt_def orElse_def toJSON_def toString_def inspect_def NOOP_def raise_def
      throw_def ret_apply match_def [of other'] Let_def)

theorem Some_of_sentinel_is_absent_witness:
  "isSome (Option_Some (JS_null :: prim nullable)) () = (Inr False, ())
   \<and> isSome (Option_Some (JS_undefined :: prim nullable)) () = (Inr False, ())
   \<and> map_opt (Option_Some JS_null) const_one () = (Inr Option_None, ())
   \<and> match (Option_Some (JS_null :: prim nullable)) (logged Called_onSome counting)
         (logged (\<lambda>_. Called_onNone) counting_null) ([], 0)
       = (Inr JS_null, ([Called_onNone], 1))"
  using Some_of_sentinel_is_absent
      [where w = "JS_null :: prim nullable" and s = "()",
        THEN conjunct2, THEN conjunct2, THEN conjunct1]
    Some_of_sentinel_is_absent
      [where w = "JS_undefined :: prim nullable" and s = "()",
        THEN conjunct2, THEN conjunct2, THEN conjunct1]
    Some_of_sentinel_is_absent
      [where w = "JS_null :: prim nullable" and s = "()" and mapper = const_one,
        THEN conjunct2, THEN conjunct2, THEN conjunct2, THEN conjunct2, THEN conjunct2,
        THEN conjunct1]
    Some_of_sentinel_is_absent
      [where w = "JS_null :: prim nullable" and onSome' = counting
        and onNone' = counting_null and log = "[]" and s' = 0,
        THEN conjunct2, THEN conjunct1]
  by (simp add: counting_null_def)

end
